theory Spec2Isabelle
  imports Main "HOL-Library.AList" "HOL-Library.Char_ord" "HOL-Library.List_Lexorder"
begin

section \<open>Python strings\<close>

text \<open>
  A Python \<^verbatim>\<open>str\<close> is modelled as a \<^typ>\<open>string\<close>, one \<^typ>\<open>char\<close> per character of the
  text (characters of file contents are taken from the 8-bit range). The few non-ASCII
  characters of the catalogue texts (a dash, an arrow) are written as their UTF-8 bytes;
  those texts are only ever compared for equality.
\<close>

definition bsl :: string where "bsl = [CHR 0x5C]"
definition dq :: string where "dq = [CHR 0x22]"
definition sq :: string where "sq = [CHR 0x27]"
definition nl :: char where "nl = CHR 0x0A"
definition emdash :: string where "emdash = [CHR 0xE2, CHR 0x80, CHR 0x94]"

text \<open>\<^verbatim>\<open>str.isspace\<close> on one character, for the code points below 256.\<close>

definition isspace :: "char \<Rightarrow> bool" where
  "isspace c = (let n = (of_char c :: nat) in
     (9 \<le> n \<and> n \<le> 13) \<or> (28 \<le> n \<and> n \<le> 32) \<or> n = 133 \<or> n = 160)"

text \<open>\<^verbatim>\<open>s.strip()\<close>: leading and trailing whitespace removed.\<close>

definition strip :: "string \<Rightarrow> string" where
  "strip s = rev (dropWhile isspace (rev (dropWhile isspace s)))"

text \<open>\<^verbatim>\<open>s.startswith(p)\<close>.\<close>

definition startswith :: "string \<Rightarrow> string \<Rightarrow> bool" where
  "startswith s p = (take (length p) s = p)"

text \<open>\<^verbatim>\<open>p in s\<close> for strings: \<open>p\<close> occurs in \<open>s\<close> as a contiguous substring.\<close>

fun py_in :: "string \<Rightarrow> string \<Rightarrow> bool" where
  "py_in p [] = (p = [])"
| "py_in p (c # cs) = (startswith (c # cs) p \<or> py_in p cs)"

text \<open>\<^verbatim>\<open>s.replace("\\", "/")\<close>.\<close>

definition replace_bsl :: "string \<Rightarrow> string" where
  "replace_bsl s = map (\<lambda>c. if c = CHR 0x5C then CHR ''/'' else c) s"

text \<open>\<^verbatim>\<open>s.split("\n")\<close>: never empty, the last piece is what follows the last newline.\<close>

fun split_nl :: "string \<Rightarrow> string list" where
  "split_nl [] = [[]]"
| "split_nl (c # cs) =
     (if c = nl then [] # split_nl cs
      else (case split_nl cs of [] \<Rightarrow> [[c]] | l # ls \<Rightarrow> (c # l) # ls))"

text \<open>\<^verbatim>\<open>"\n".join(ls)\<close>.\<close>

fun join_nl :: "string list \<Rightarrow> string" where
  "join_nl [] = []"
| "join_nl [l] = l"
| "join_nl (l # ls) = l @ nl # join_nl ls"

text \<open>\<^verbatim>\<open>enumerate(ls, 1)\<close>: every line with its 1-based number.\<close>

definition enumerate1 :: "'a list \<Rightarrow> (nat \<times> 'a) list" where
  "enumerate1 ls = zip [1 ..< Suc (length ls)] ls"




section \<open>Dictionaries of counters\<close>

text \<open>
  The summaries are Python dicts from a string to a count, filled by
  \<^verbatim>\<open>d[k] = d.get(k, 0) + 1\<close>. A dict keeps its keys in insertion order, so it is an
  association list: a new key goes to the end, an old key is updated in place.
\<close>

type_synonym counter = "(string \<times> nat) list"

definition dict_get :: "counter \<Rightarrow> string \<Rightarrow> nat \<Rightarrow> nat" where
  "dict_get d k dflt = (case map_of d k of None \<Rightarrow> dflt | Some v \<Rightarrow> v)"

definition bump :: "counter \<Rightarrow> string \<Rightarrow> counter" where
  "bump d k = AList.update k (dict_get d k 0 + 1) d"

definition count_by :: "('a \<Rightarrow> string) \<Rightarrow> 'a list \<Rightarrow> counter" where
  "count_by field xs = foldl (\<lambda>d x. bump d (field x)) [] xs"

definition dict_values_sum :: "counter \<Rightarrow> nat" where
  "dict_values_sum d = sum_list (map snd d)"

section \<open>The aggregation shared by the two finding reports\<close>

text \<open>
  \<^verbatim>\<open>severity_order = {"CRIT": 0, "HIGH": 1, "MED": 2, "LOW": 3}\<close> read with
  \<^verbatim>\<open>severity_order.get(f.severity, 99)\<close>.
\<close>

definition severity_order :: "string \<Rightarrow> nat" where
  "severity_order s =
     (if s = ''CRIT'' then 0 else if s = ''HIGH'' then 1
      else if s = ''MED'' then 2 else if s = ''LOW'' then 3 else 99)"

text \<open>
  The deduplication loop: \<open>seen\<close> is the set of keys met so far, an entry is appended
  when its key is new.
\<close>

fun unique_loop :: "('a \<Rightarrow> 'k) \<Rightarrow> 'k set \<Rightarrow> 'a list \<Rightarrow> 'a list" where
  "unique_loop key seen [] = []"
| "unique_loop key seen (f # fs) =
     (if key f \<in> seen then unique_loop key seen fs
      else f # unique_loop key (insert (key f) seen) fs)"

section \<open>security\_auditor.py: data and report\<close>

record Finding =
  severity :: string
  check_name :: string
  description :: string
  file_path :: string
  line :: nat
  code_snippet :: string
  recommendation :: string

record audit_report =
  target :: string
  total_findings :: nat
  by_severity :: counter
  by_check :: counter
  findings :: "Finding list"

definition finding_key :: "Finding \<Rightarrow> string \<times> string \<times> nat" where
  "finding_key f = (check_name f, file_path f, line f)"

text \<open>
  \<^verbatim>\<open>SecurityAuditor.generate_report\<close>: a stable sort on the severity rank, then the
  deduplication on (check, file, line), then the two counters. The Python sort is stable,
  as \<^const>\<open>sort_key\<close> is.
\<close>

definition generate_report :: "string \<Rightarrow> Finding list \<Rightarrow> audit_report" where
  "generate_report tgt fs =
     (let sorted_fs = sort_key (\<lambda>f. severity_order (severity f)) fs;
          unique_findings = unique_loop finding_key {} sorted_fs
      in \<lparr> target = tgt,
           total_findings = length unique_findings,
           by_severity = count_by severity unique_findings,
           by_check = count_by check_name unique_findings,
           findings = unique_findings \<rparr>)"

section \<open>ble\_attack\_surface.py: data and report\<close>

record BLEFinding =
  b_severity :: string
  b_category :: string
  b_description :: string
  b_file_path :: string
  b_line :: nat
  b_code_snippet :: string
  b_recommendation :: string

record ble_report =
  b_target :: string
  b_total_findings :: nat
  b_by_severity :: counter
  b_by_category :: counter
  b_findings :: "BLEFinding list"

definition ble_key :: "BLEFinding \<Rightarrow> string \<times> string \<times> string \<times> nat" where
  "ble_key f = (b_category f, b_description f, b_file_path f, b_line f)"

text \<open>\<^verbatim>\<open>BLEAttackSurfaceAnalyzer.generate_report\<close> (the \<^verbatim>\<open>ble_config\<close> entry is left out).\<close>

definition ble_generate_report :: "string \<Rightarrow> BLEFinding list \<Rightarrow> ble_report" where
  "ble_generate_report tgt fs =
     (let sorted_fs = sort_key (\<lambda>f. severity_order (b_severity f)) fs;
          unique = unique_loop ble_key {} sorted_fs
      in \<lparr> b_target = tgt,
           b_total_findings = length unique,
           b_by_severity = count_by b_severity unique,
           b_by_category = count_by b_category unique,
           b_findings = unique \<rparr>)"

section \<open>threat\_modeler.py: data and report\<close>

record Threat =
  t_category :: string
  t_component :: string
  t_description :: string
  t_severity :: string
  t_mitigation :: string
  t_file_path :: "string option"


record threat_summary =
  total_threats :: nat
  s_by_severity :: counter
  s_by_category :: counter
  components_analyzed :: "string list"

record threat_results =
  r_threats :: "Threat list"
  r_summary :: "threat_summary option"
  components_found :: "string list"
  custom_findings :: "nat option"

text \<open>
  \<^verbatim>\<open>ThreatModeler.generate_report\<close>: the counters are computed over the list of threats
  as it stands; the list is neither sorted nor deduplicated.
\<close>

definition tm_generate_report :: "threat_results \<Rightarrow> threat_results" where
  "tm_generate_report res =
     (let ts = r_threats res
      in res \<lparr> r_summary := Some \<lparr> total_threats = length ts,
                                  s_by_severity = count_by t_severity ts,
                                  s_by_category = count_by t_category ts,
                                  components_analyzed = components_found res \<rparr> \<rparr>)"


section \<open>The environment: regular expressions and the file system\<close>

text \<open>
  Python's \<^verbatim>\<open>re\<close> module is not part of the repository. The three ways the scripts call it
  are the fields of an engine that every scan takes as a parameter:
  \<^verbatim>\<open>re.search(p, s)\<close>, \<^verbatim>\<open>re.search(p, s, re.IGNORECASE)\<close> (both as "a match exists") and
  \<^verbatim>\<open>re.finditer(p, s, re.IGNORECASE)\<close> (the \<^verbatim>\<open>start()\<close> offsets of the matches, in order).
\<close>

record re_engine =
  re_search :: "string \<Rightarrow> string \<Rightarrow> bool"
  re_search_i :: "string \<Rightarrow> string \<Rightarrow> bool"
  re_finditer_i :: "string \<Rightarrow> string \<Rightarrow> nat list"

text \<open>
  A file found by \<^verbatim>\<open>rglob\<close>: \<open>path\<close> is \<^verbatim>\<open>str(f)\<close>, \<open>rel\<close> is
  \<^verbatim>\<open>str(f.relative_to(self.target_path))\<close>, and \<open>content\<close> is what
  \<^verbatim>\<open>read_text(encoding="utf-8", errors="ignore")\<close> returns, \<open>None\<close> when it raises
  \<^verbatim>\<open>PermissionError\<close> or \<^verbatim>\<open>OSError\<close> (the scans catch both and go on to the next file).
\<close>

record src_file =
  path :: string
  rel :: string
  content :: "string option"

datatype error = ValueError string | OSError

text \<open>
  What one run sees of the file system. A listing (\<^verbatim>\<open>list(self.target_path.rglob(...))\<close>)
  is outside every inner \<^verbatim>\<open>try\<close>: when it raises, the exception reaches the handler of
  \<^verbatim>\<open>run\<close>. The two pubspec fields are \<open>None\<close> when the file does not exist, and
  otherwise hold the result of reading it.
\<close>

record fs_env =
  target_path :: string
  target_exists :: bool
  rglob_dart :: "error + src_file list"
  rglob_manifest :: "error + src_file list"
  rglob_plist :: "error + src_file list"
  pubspec_here :: "string option option"
  pubspec_parent :: "string option option"

definition bind_e :: "error + 'a \<Rightarrow> ('a \<Rightarrow> error + 'b) \<Rightarrow> error + 'b" where
  "bind_e m f = (case m of Inl e \<Rightarrow> Inl e | Inr x \<Rightarrow> f x)"

text \<open>\<^verbatim>\<open>validate_target\<close>, the same in the three scripts.\<close>

definition validate_target :: "fs_env \<Rightarrow> error + unit" where
  "validate_target env =
     (if \<not> target_exists env
      then Inl (ValueError (''Target path does not exist: '' @ target_path env))
      else Inr ())"

text \<open>
  The status the process ends with after \<^verbatim>\<open>run\<close>: the handler
  \<^verbatim>\<open>except Exception: ... sys.exit(1)\<close> on an error, a normal return otherwise.
\<close>

definition exit_status :: "error + 'a \<Rightarrow> nat" where
  "exit_status r = (case r of Inl e \<Rightarrow> 1 | Inr x \<Rightarrow> 0)"


section \<open>security\_auditor.py: the rule tables\<close>

text \<open>A check is (pattern, severity, check name, description, recommendation, category).\<close>

type_synonym check_def = "string \<times> string \<times> string \<times> string \<times> string \<times> string"

definition CRYPTO_CHECKS :: "check_def list" where
  "CRYPTO_CHECKS =
   [(bsl @ ''bRandom'' @ bsl @ ''('' @ bsl @ '')'',
     ''CRIT'', ''insecure-rng'',
     ''dart:math Random() is not cryptographically secure'',
     ''Use sodium.randombytes.buf() or dart:math SecureRandom'',
     ''crypto''),
    (''(?:key|secret|password|passphrase)'' @ bsl @ ''s*='' @ bsl @ ''s*['' @ sq @ bsl @ dq
       @ ''][^'' @ sq @ bsl @ dq @ '']{1,100}['' @ sq @ bsl @ dq @ '']'',
     ''CRIT'', ''hardcoded-secret'',
     ''Possible hardcoded cryptographic key or secret'',
     ''Load keys from flutter_secure_storage, never hardcode'',
     ''crypto''),
    (''Uint8List'' @ bsl @ ''('' @ bsl @ ''d+'' @ bsl @ '')'' @ bsl @ ''s*(?:;|,)'',
     ''HIGH'', ''zero-nonce'',
     ''Zero-initialized Uint8List may be used as nonce (all zeros = nonce reuse)'',
     ''Use sodium.randombytes.buf() for nonces, or verify this is not a nonce'',
     ''crypto''),
    (''crypto_aead.*nonce.*=.*(?:0|nonce)'',
     ''HIGH'', ''nonce-reuse-risk'',
     ''Static or reused nonce in AEAD encryption'',
     ''Generate fresh random nonce per encryption operation'',
     ''crypto''),
    (''catch'' @ bsl @ ''s*'' @ bsl @ ''([^)]*'' @ bsl @ '')'' @ bsl @ ''s*'' @ bsl
       @ ''{[^}]*return'' @ bsl @ ''s+(?:data|raw|bytes|payload|ciphertext)'',
     ''CRIT'', ''crypto-fallback'',
     ''Catch block returns original data on crypto failure '' @ emdash @ '' bypasses encryption'',
     ''On crypto failure, return null or rethrow. Never fall back to plaintext'',
     ''crypto'')]"

definition STORAGE_CHECKS :: "check_def list" where
  "STORAGE_CHECKS =
   [(''SharedPreferences.*(?:key|secret|password|token|private)'',
     ''CRIT'', ''secret-in-prefs'',
     ''Cryptographic material stored in SharedPreferences (unencrypted)'',
     ''Use flutter_secure_storage for all keys and secrets'',
     ''storage''),
    (''File'' @ bsl @ ''(.*'' @ bsl @ '')'' @ bsl @ ''.writeAs(?:String|Bytes).*(?:key|secret|private)'',
     ''CRIT'', ''secret-in-file'',
     ''Possible secret written to plain file'',
     ''Use flutter_secure_storage, not File I/O for secrets'',
     ''storage''),
    (''SecureStorage.*delete'' @ bsl @ ''b'',
     ''LOW'', ''key-deletion'',
     ''Key deletion from secure storage '' @ emdash @ '' verify this is intentional'',
     ''Ensure key deletion is part of planned key rotation or app reset'',
     ''storage'')]"

definition LOGGING_CHECKS :: "check_def list" where
  "LOGGING_CHECKS =
   [(''(?:print|debugPrint|log'' @ bsl @ ''.)'' @ bsl @ ''s*'' @ bsl
       @ ''([^)]*(?:peerId|peer_id|PeerId|sourceId|destId)'',
     ''HIGH'', ''pii-log-peerid'',
     ''Peer ID logged '' @ emdash @ '' identity leak'',
     ''Use SecureLogger, truncate or hash peer IDs before logging'',
     ''logging''),
    (''(?:print|debugPrint|log'' @ bsl @ ''.)'' @ bsl @ ''s*'' @ bsl
       @ ''([^)]*(?:secretKey|privateKey|private_key|SecureKey)'',
     ''CRIT'', ''key-logged'',
     ''Private key material may be logged'',
     ''Never log key material. Remove this logging statement'',
     ''logging''),
    (''(?:print|debugPrint|log'' @ bsl @ ''.)'' @ bsl @ ''s*'' @ bsl
       @ ''([^)]*(?:latitude|longitude|lat|lng|coordinates|location)'',
     ''HIGH'', ''pii-log-location'',
     ''GPS coordinates logged '' @ emdash @ '' location privacy leak'',
     ''Use SecureLogger, never log coordinates'',
     ''logging''),
    (''(?:print|debugPrint|log'' @ bsl @ ''.)'' @ bsl @ ''s*'' @ bsl
       @ ''([^)]*(?:passphrase|password|groupKey|group_key)'',
     ''CRIT'', ''secret-logged'',
     ''Secret or passphrase logged'',
     ''Remove this logging statement immediately'',
     ''logging''),
    (''(?:print|debugPrint)'' @ bsl @ ''s*'' @ bsl @ ''('',
     ''LOW'', ''debug-print'',
     ''debugPrint/print statement '' @ emdash @ '' ensure removed in release builds'',
     ''Use SecureLogger or conditional logging (kDebugMode guard)'',
     ''logging'')]"

definition PROTOCOL_CHECKS :: "check_def list" where
  "PROTOCOL_CHECKS =
   [(bsl @ ''.decode'' @ bsl @ ''([^)]*'' @ bsl @ '')(?!'' @ bsl @ ''s*(?:catch|try))'',
     ''MED'', ''unguarded-decode'',
     ''Decoding without try/catch '' @ emdash @ '' malformed BLE data may crash the app'',
     ''Wrap decode in try/catch, return null on failure'',
     ''protocol''),
    (''sublist'' @ bsl @ ''('' @ bsl @ ''s*'' @ bsl @ ''d+'',
     ''MED'', ''unchecked-sublist'',
     ''sublist() without prior length check '' @ emdash @ '' may throw RangeError'',
     ''Check data.length >= offset + needed before sublist()'',
     ''protocol''),
    (''ByteData'' @ bsl @ ''.view.*getUint(?:8|16|32|64)'',
     ''MED'', ''unchecked-bytedata'',
     ''ByteData access without length validation '' @ emdash @ '' potential out-of-bounds'',
     ''Validate buffer length before ByteData access'',
     ''protocol'')]"

definition PERMISSION_CHECKS_ANDROID :: "check_def list" where
  "PERMISSION_CHECKS_ANDROID =
   [(''ACCESS_BACKGROUND_LOCATION'',
     ''MED'', ''background-location'',
     ''Background location permission requested '' @ emdash @ '' high privacy impact'',
     ''Only request if truly needed for background mesh operation'',
     ''permissions''),
    (''android:allowBackup'' @ bsl @ ''s*='' @ bsl @ ''s*'' @ bsl @ dq @ ''true'' @ bsl @ dq,
     ''HIGH'', ''backup-enabled'',
     ''Android backup enabled '' @ emdash @ '' app data (including messages) extractable via ADB'',
     ''Set android:allowBackup='' @ dq @ ''false'' @ dq @ '' in AndroidManifest.xml'',
     ''permissions''),
    (''android:debuggable'' @ bsl @ ''s*='' @ bsl @ ''s*'' @ bsl @ dq @ ''true'' @ bsl @ dq,
     ''CRIT'', ''debuggable'',
     ''App is debuggable '' @ emdash @ '' allows runtime inspection and data extraction'',
     ''Ensure debuggable is false in release builds'',
     ''permissions''),
    (''usesCleartextTraffic'' @ bsl @ ''s*='' @ bsl @ ''s*'' @ bsl @ dq @ ''true'' @ bsl @ dq,
     ''MED'', ''cleartext-traffic'',
     ''Cleartext HTTP traffic allowed'',
     ''Set usesCleartextTraffic='' @ dq @ ''false'' @ dq @ '' or use networkSecurityConfig'',
     ''permissions'')]"

text \<open>The components of a check, by position.\<close>

definition chk_pattern :: "check_def \<Rightarrow> string" where
  "chk_pattern c = (case c of (p, s, n, d, r, g) \<Rightarrow> p)"
definition chk_severity :: "check_def \<Rightarrow> string" where
  "chk_severity c = (case c of (p, s, n, d, r, g) \<Rightarrow> s)"
definition chk_name :: "check_def \<Rightarrow> string" where
  "chk_name c = (case c of (p, s, n, d, r, g) \<Rightarrow> n)"


section \<open>security\_auditor.py: the scans\<close>

text \<open>
  Every scan appends to \<^verbatim>\<open>self.findings\<close>; here a scan returns the findings it appends,
  in the order it appends them, and \<open>run\<close> concatenates them.
\<close>

text \<open>The comment test of \<^verbatim>\<open>audit_dart_files\<close>, on the stripped line.\<close>

definition is_comment :: "string \<Rightarrow> bool" where
  "is_comment stripped =
     (startswith stripped ''//'' \<or> startswith stripped ''*'' \<or> startswith stripped ''///'')"

text \<open>The inner loop of \<^verbatim>\<open>audit_dart_files\<close>: one check over the numbered lines of a file.\<close>

definition check_lines :: "re_engine \<Rightarrow> string \<Rightarrow> string list \<Rightarrow> check_def \<Rightarrow> Finding list" where
  "check_lines re rel_path lines c =
     (case c of (pattern, sev, chk, desc, rcm, category) \<Rightarrow>
        concat (map (\<lambda>(i, ln).
          let stripped = strip ln in
          if is_comment stripped then []
          else if re_search_i re pattern ln
          then [\<lparr> severity = sev, check_name = chk, description = desc,
                  file_path = rel_path, line = i,
                  code_snippet = take 120 stripped, recommendation = rcm \<rparr>]
          else []) (enumerate1 lines)))"





text \<open>\<^verbatim>\<open>audit_android_manifest\<close>: no comment test here, the snippet is the stripped line.\<close>

definition manifest_check_lines ::
  "re_engine \<Rightarrow> string \<Rightarrow> string list \<Rightarrow> check_def \<Rightarrow> Finding list" where
  "manifest_check_lines re rel_path lines c =
     (case c of (pattern, sev, chk, desc, rcm, category) \<Rightarrow>
        concat (map (\<lambda>(i, ln).
          if re_search_i re pattern ln
          then [\<lparr> severity = sev, check_name = chk, description = desc,
                  file_path = rel_path, line = i,
                  code_snippet = take 120 (strip ln), recommendation = rcm \<rparr>]
          else []) (enumerate1 lines)))"



definition ios_background_modes :: "string \<Rightarrow> Finding" where
  "ios_background_modes rel_path =
     \<lparr> severity = ''LOW'', check_name = ''ios-background-modes'',
       description = ''Multiple background modes enabled '' @ emdash @ '' verify all are necessary'',
       file_path = rel_path, line = 0,
       code_snippet = ''UIBackgroundModes: bluetooth + fetch'',
       recommendation = ''Only enable background modes that are actively used'' \<rparr>"



definition http_dependency :: Finding where
  "http_dependency =
     \<lparr> severity = ''LOW'', check_name = ''http-dependency'',
       description = ''HTTP package dependency '' @ emdash @ '' ensure HTTPS is enforced in usage'',
       file_path = ''pubspec.yaml'', line = 0,
       code_snippet = ''http dependency in pubspec.yaml'',
       recommendation = ''Verify all HTTP calls use HTTPS endpoints'' \<rparr>"

definition missing_sodium :: Finding where
  "missing_sodium =
     \<lparr> severity = ''HIGH'', check_name = ''missing-sodium'',
       description = ''sodium_libs not found in pubspec '' @ emdash
                       @ '' crypto operations may use weak alternatives'',
       file_path = ''pubspec.yaml'', line = 0,
       code_snippet = ''sodium_libs not in dependencies'',
       recommendation = ''Add sodium_libs dependency for all cryptographic operations'' \<rparr>"

definition missing_secure_storage :: Finding where
  "missing_secure_storage =
     \<lparr> severity = ''HIGH'', check_name = ''missing-secure-storage'',
       description = ''flutter_secure_storage not found '' @ emdash
                       @ '' secrets may be stored insecurely'',
       file_path = ''pubspec.yaml'', line = 0,
       code_snippet = ''flutter_secure_storage not in dependencies'',
       recommendation = ''Add flutter_secure_storage for key and secret persistence'' \<rparr>"





text \<open>The findings of the report of a run, none when the run ends in an error.\<close>

definition findings_of :: "error + audit_report \<Rightarrow> Finding list" where
  "findings_of r = (case r of Inl e \<Rightarrow> [] | Inr rep \<Rightarrow> findings rep)"

section \<open>ble\_attack\_surface.py: the scans\<close>

text \<open>\<^verbatim>\<open>_scan_dart_files\<close>: the listed Dart files without tests and \<^verbatim>\<open>.g.dart\<close> files.\<close>

definition ble_keep_dart_file :: "string \<Rightarrow> bool" where
  "ble_keep_dart_file p = (\<not> py_in ''/test/'' (replace_bsl p) \<and> \<not> py_in ''.g.dart'' p)"

definition scan_dart_files :: "src_file list \<Rightarrow> src_file list" where
  "scan_dart_files listed = filter (\<lambda>f. ble_keep_dart_file (path f)) listed"

text \<open>A pattern of the three line audits is (pattern, severity, check, description, recommendation).\<close>

type_synonym ble_pattern = "string \<times> string \<times> string \<times> string \<times> string"

definition advertising_patterns :: "ble_pattern list" where
  "advertising_patterns =
   [(''localName'' @ bsl @ ''s*:'', ''HIGH'', ''advertising-name'',
     ''Device name included in BLE advertising '' @ emdash @ '' identity leak to nearby devices'',
     ''Remove localName from advertising data to prevent tracking''),
    (''manufacturerData'' @ bsl @ ''s*:.*(?:peerId|peer|id|identity)'',
     ''CRIT'', ''advertising-identity'',
     ''Peer identity data in manufacturer-specific advertising field'',
     ''Remove identity data from advertising. Use application-layer identity only''),
    (''manufacturerData'' @ bsl @ ''s*:'', ''MED'', ''advertising-manufacturer-data'',
     ''Manufacturer-specific data in advertising '' @ emdash @ '' verify no sensitive info'',
     ''Review manufacturer data content. Minimize to absolute minimum''),
    (''serviceData'' @ bsl @ ''s*:.*(?!.*uuid)'', ''MED'', ''advertising-service-data'',
     ''Service data in advertising '' @ emdash @ '' may leak application state'',
     ''Minimize service data. Prefer discovery via GATT connection''),
    (''(?:startAdvertising|advertise).*(?:displayName|userName|name)'',
     ''HIGH'', ''advertising-display-name'',
     ''User display name may be broadcast in BLE advertising'',
     ''Never include user-visible names in advertising data''),
    (''txPowerLevel'' @ bsl @ ''s*:'', ''LOW'', ''advertising-tx-power'',
     ''TX power level in advertising '' @ emdash @ '' enables distance estimation by observers'',
     ''Consider removing TX power from advertising if not needed'')]"

definition gatt_patterns :: "ble_pattern list" where
  "gatt_patterns =
   [(''(?:read|Read)'' @ bsl @ ''s*:'' @ bsl @ ''s*true.*(?:key|secret|token|private)'',
     ''CRIT'', ''gatt-read-secret'',
     ''GATT characteristic with read permission may expose secrets'',
     ''Never expose secrets via GATT characteristics''),
    (''(?:write|Write).*(?:WithoutResponse|withoutResponse)'',
     ''MED'', ''gatt-write-no-response'',
     ''Write-without-response on GATT '' @ emdash @ '' no acknowledgment of writes'',
     ''Consider write-with-response for reliability and flow control''),
    (''notify'' @ bsl @ ''s*:'' @ bsl @ ''s*true'',
     ''LOW'', ''gatt-notify'',
     ''GATT notification enabled '' @ emdash @ '' verify notification data doesn'' @ sq
       @ ''t leak sensitive info'',
     ''Review what data is sent via notifications'')]"

definition connection_patterns :: "ble_pattern list" where
  "connection_patterns =
   [(''autoConnect'' @ bsl @ ''s*:'' @ bsl @ ''s*true'',
     ''MED'', ''auto-connect'',
     ''Auto-connect enabled '' @ emdash
       @ '' device will connect to known peripherals automatically'',
     ''Use manual connect with user intent for better security posture''),
    (''(?:maxCentral|maxConnect).*(?:'' @ bsl @ ''d{2,})'',
     ''MED'', ''high-max-connections'',
     ''High max connection limit may allow connection flooding'',
     ''Limit to 6 (iOS max) or fewer for resource protection''),
    (''timeout.*(?:0|null|none)'',
     ''HIGH'', ''no-connection-timeout'',
     ''BLE connection without timeout '' @ emdash @ '' stale connections hold resources'',
     ''Set reasonable connection timeout (30-60 seconds)''),
    (''requestMtu'',
     ''LOW'', ''mtu-request'',
     ''MTU negotiation '' @ emdash @ '' verify MTU value doesn'' @ sq
       @ ''t exceed app'' @ sq @ ''s handling capacity'',
     ''Validate negotiated MTU and handle fragments correctly'')]"

text \<open>
  The loop shared by \<^verbatim>\<open>audit_advertising\<close>, \<^verbatim>\<open>audit_gatt_permissions\<close> and
  \<^verbatim>\<open>audit_connection_security\<close>: every pattern over every numbered line, no comment test,
  the category fixed by the audit.
\<close>

definition ble_check_lines ::
  "re_engine \<Rightarrow> string \<Rightarrow> string \<Rightarrow> string list \<Rightarrow> ble_pattern \<Rightarrow> BLEFinding list" where
  "ble_check_lines re cat rel_path lines p =
     (case p of (pattern, sev, chk, desc, rcm) \<Rightarrow>
        concat (map (\<lambda>(i, ln).
          if re_search_i re pattern ln
          then [\<lparr> b_severity = sev, b_category = cat, b_description = desc,
                  b_file_path = rel_path, b_line = i,
                  b_code_snippet = take 120 (strip ln), b_recommendation = rcm \<rparr>]
          else []) (enumerate1 lines)))"

definition ble_line_audit ::
  "re_engine \<Rightarrow> string \<Rightarrow> ble_pattern list \<Rightarrow> src_file list \<Rightarrow> BLEFinding list" where
  "ble_line_audit re cat patterns dart_files =
     concat (map (\<lambda>f. case content f of
                         None \<Rightarrow> []
                       | Some text \<Rightarrow>
                           concat (map (ble_check_lines re cat (rel f) (split_nl text)) patterns))
                 dart_files)"

definition audit_advertising :: "re_engine \<Rightarrow> src_file list \<Rightarrow> BLEFinding list" where
  "audit_advertising re listed =
     ble_line_audit re ''advertising'' advertising_patterns (scan_dart_files listed)"

definition audit_gatt_permissions :: "re_engine \<Rightarrow> src_file list \<Rightarrow> BLEFinding list" where
  "audit_gatt_permissions re listed =
     ble_line_audit re ''gatt'' gatt_patterns (scan_dart_files listed)"

definition audit_connection_security :: "re_engine \<Rightarrow> src_file list \<Rightarrow> BLEFinding list" where
  "audit_connection_security re listed =
     ble_line_audit re ''connection'' connection_patterns (scan_dart_files listed)"

text \<open>\<^verbatim>\<open>audit_data_validation\<close>: a handler line, then a window of the 15 lines after it.\<close>

definition handler_patterns :: "(string \<times> string) list" where
  "handler_patterns =
   [(''onValueReceived|onCharacteristicReceived|onData|onValueChanged'', ''callback_found'')]"

definition validation_patterns :: "string list" where
  "validation_patterns =
   [bsl @ ''.length'' @ bsl @ ''s*[<>=]'',
    ''if'' @ bsl @ ''s*'' @ bsl @ ''('' @ bsl @ ''s*data'' @ bsl @ ''.length'',
    ''if'' @ bsl @ ''s*'' @ bsl @ ''('' @ bsl @ ''s*value'' @ bsl @ ''.length'']"

text \<open>
  \<^verbatim>\<open>context = "\n".join(lines[i:i + 15])\<close> with the 1-based \<open>i\<close> of the handler line, so
  the window starts at the line after it; the validation patterns are searched in the
  joined window, case-sensitively.
\<close>

definition has_validation :: "re_engine \<Rightarrow> string list \<Rightarrow> nat \<Rightarrow> bool" where
  "has_validation re lines i =
     (let context = join_nl (take 15 (drop i lines))
      in list_ex (\<lambda>vp. re_search re vp context) validation_patterns)"

definition unvalidated_handler :: "string \<Rightarrow> nat \<Rightarrow> string \<Rightarrow> BLEFinding" where
  "unvalidated_handler rel_path i ln =
     \<lparr> b_severity = ''HIGH'', b_category = ''transport'',
       b_description = ''BLE data handler without visible length validation '' @ emdash
                         @ '' buffer overflow risk'',
       b_file_path = rel_path, b_line = i,
       b_code_snippet = take 120 (strip ln),
       b_recommendation = ''Validate data length before parsing. Check min/max bounds.'' \<rparr>"

definition handler_lines :: "re_engine \<Rightarrow> string \<Rightarrow> string list \<Rightarrow> string \<Rightarrow> BLEFinding list" where
  "handler_lines re rel_path lines pattern =
     concat (map (\<lambda>(i, ln).
       if re_search_i re pattern ln
       then (if \<not> has_validation re lines i then [unvalidated_handler rel_path i ln] else [])
       else []) (enumerate1 lines))"

definition data_validation_file :: "re_engine \<Rightarrow> src_file \<Rightarrow> BLEFinding list" where
  "data_validation_file re f =
     (case content f of
        None \<Rightarrow> []
      | Some text \<Rightarrow>
          concat (map (\<lambda>(pattern, tag). handler_lines re (rel f) (split_nl text) pattern)
                      handler_patterns))"

definition audit_data_validation :: "re_engine \<Rightarrow> src_file list \<Rightarrow> BLEFinding list" where
  "audit_data_validation re listed =
     concat (map (data_validation_file re) (scan_dart_files listed))"

text \<open>\<^verbatim>\<open>audit_ble_permissions\<close>: the Android manifests, then the iOS property lists.\<close>

definition fine_location_finding :: "string \<Rightarrow> BLEFinding" where
  "fine_location_finding rel_path =
     \<lparr> b_severity = ''LOW'', b_category = ''config'',
       b_description = ''Both FINE_LOCATION and BLUETOOTH_SCAN '' @ emdash
                         @ '' FINE_LOCATION needed only for Android <12'',
       b_file_path = rel_path, b_line = 0,
       b_code_snippet = ''ACCESS_FINE_LOCATION + BLUETOOTH_SCAN'',
       b_recommendation = ''Consider conditional permission request based on API level'' \<rparr>"

definition missing_advertise_finding :: "string \<Rightarrow> BLEFinding" where
  "missing_advertise_finding rel_path =
     \<lparr> b_severity = ''MED'', b_category = ''config'',
       b_description = ''BLUETOOTH_ADVERTISE permission missing but app uses ble_peripheral'',
       b_file_path = rel_path, b_line = 0,
       b_code_snippet = ''Missing BLUETOOTH_ADVERTISE'',
       b_recommendation = ''Add BLUETOOTH_ADVERTISE permission for Android 12+'' \<rparr>"

definition missing_usage_finding :: "string \<Rightarrow> BLEFinding" where
  "missing_usage_finding rel_path =
     \<lparr> b_severity = ''MED'', b_category = ''config'',
       b_description = ''Missing NSBluetoothAlwaysUsageDescription '' @ emdash
                         @ '' iOS may reject BLE access'',
       b_file_path = rel_path, b_line = 0,
       b_code_snippet = ''Missing NSBluetoothAlwaysUsageDescription'',
       b_recommendation = ''Add Bluetooth usage description to Info.plist'' \<rparr>"

definition ble_manifest_findings :: "string \<Rightarrow> src_file list \<Rightarrow> BLEFinding list" where
  "ble_manifest_findings tgt manifests =
     concat (map (\<lambda>m.
       if py_in ''debug'' (path m) \<or> py_in ''profile'' (path m) then []
       else (case content m of
               None \<Rightarrow> []
             | Some text \<Rightarrow>
                 (if py_in ''ACCESS_FINE_LOCATION'' text \<and> py_in ''BLUETOOTH_SCAN'' text
                  then [fine_location_finding (rel m)] else [])
                 @ (if \<not> py_in ''BLUETOOTH_ADVERTISE'' text \<and> py_in ''ble_peripheral'' tgt
                    then [missing_advertise_finding (rel m)] else []))) manifests)"

definition ble_plist_findings :: "src_file list \<Rightarrow> BLEFinding list" where
  "ble_plist_findings plists =
     concat (map (\<lambda>p. case content p of
                         None \<Rightarrow> []
                       | Some text \<Rightarrow>
                           if \<not> py_in ''NSBluetoothAlwaysUsageDescription'' text
                           then [missing_usage_finding (rel p)] else []) plists)"

text \<open>
  \<^verbatim>\<open>BLEAttackSurfaceAnalyzer.run\<close>. \<^verbatim>\<open>extract_ble_config\<close> only fills \<^verbatim>\<open>ble_config\<close>, which
  is left out; it is the first to list the Dart files. The listing is the same every time
  it is asked for.
\<close>

definition ble_collect_findings :: "re_engine \<Rightarrow> fs_env \<Rightarrow> error + BLEFinding list" where
  "ble_collect_findings re env =
     bind_e (validate_target env) (\<lambda>u.
     bind_e (rglob_dart env) (\<lambda>listed.
     bind_e (rglob_manifest env) (\<lambda>manifests.
     bind_e (rglob_plist env) (\<lambda>plists.
     Inr (audit_advertising re listed
          @ audit_gatt_permissions re listed
          @ audit_connection_security re listed
          @ audit_data_validation re listed
          @ ble_manifest_findings (target_path env) manifests
          @ ble_plist_findings plists)))))"

definition ble_run :: "re_engine \<Rightarrow> fs_env \<Rightarrow> error + ble_report" where
  "ble_run re env =
     bind_e (ble_collect_findings re env) (\<lambda>fs.
     Inr (ble_generate_report (target_path env) fs))"

definition b_findings_of :: "error + ble_report \<Rightarrow> BLEFinding list" where
  "b_findings_of r = (case r of Inl e \<Rightarrow> [] | Inr rep \<Rightarrow> b_findings rep)"

section \<open>threat\_modeler.py: the catalogue and the scans\<close>














section \<open>An engine for the examples\<close>











section \<open>Example projects\<close>


definition dart_file :: "string \<Rightarrow> string \<Rightarrow> src_file" where
  "dart_file rel_path text =
     \<lparr> path = ''lib/'' @ rel_path, rel = rel_path, content = Some text \<rparr>"

section \<open>Severity tables\<close>

text \<open>
  The severity every check name of the security auditor is reported with, read off the
  rule tables and the fixed findings of the property list and pubspec scans.
\<close>

definition check_severities :: "(string \<times> string) list" where
  "check_severities =
     map (\<lambda>c. (chk_name c, chk_severity c))
         (CRYPTO_CHECKS @ STORAGE_CHECKS @ LOGGING_CHECKS @ PROTOCOL_CHECKS
          @ PERMISSION_CHECKS_ANDROID)
     @ map (\<lambda>f. (check_name f, severity f))
         [ios_background_modes [], http_dependency, missing_sodium, missing_secure_storage]"

text \<open>The same for the BLE analyzer, by description.\<close>

definition ble_severities :: "(string \<times> string) list" where
  "ble_severities =
     map (\<lambda>(pattern, sev, chk, desc, rcm). (desc, sev))
         (advertising_patterns @ gatt_patterns @ connection_patterns)
     @ map (\<lambda>f. (b_description f, b_severity f))
         [unvalidated_handler [] 0 [], fine_location_finding [], missing_advertise_finding [],
          missing_usage_finding []]"

text \<open>
  The threat model has no deduplication and so no key of its own; for a threat, the key
  the aggregation of findings would use is its description with its location (the
  location of a custom threat holds the file and the line).
\<close>

definition threat_key :: "Threat \<Rightarrow> string \<times> string option" where
  "threat_key t = (t_description t, t_file_path t)"

text \<open>All rules of the security auditor.\<close>

definition ALL_CHECKS :: "check_def list" where
  "ALL_CHECKS = CRYPTO_CHECKS @ STORAGE_CHECKS @ LOGGING_CHECKS @ PROTOCOL_CHECKS
                @ PERMISSION_CHECKS_ANDROID"

section \<open>Counters\<close>

lemma sum_update:
  "sum_list (map snd (AList.update k v (d :: counter))) + dict_get d k 0 =
     sum_list (map snd d) + v"
proof (induction d)
  case Nil
  show ?case by (simp add: dict_get_def)
next
  case (Cons p d)
  obtain a b where p: "p = (a, b)" by (cases p)
  show ?case
  proof (cases "k = a")
    case True
    then show ?thesis by (simp add: p dict_get_def)
  next
    case False
    have "sum_list (map snd (AList.update k v (p # d))) + dict_get (p # d) k 0 =
            b + (sum_list (map snd (AList.update k v d)) + dict_get d k 0)"
      using False by (simp add: p dict_get_def)
    also have "\<dots> = b + (sum_list (map snd d) + v)"
      by (simp only: Cons.IH)
    finally show ?thesis by (simp add: p)
  qed
qed

lemma sum_bump: "dict_values_sum (bump d k) = Suc (dict_values_sum d)"
proof -
  have "sum_list (map snd (bump d k)) + dict_get d k 0 =
          sum_list (map snd d) + (dict_get d k 0 + 1)"
    unfolding bump_def by (rule sum_update)
  then show ?thesis by (simp add: dict_values_sum_def)
qed

lemma sum_foldl_bump:
  "dict_values_sum (foldl (\<lambda>d x. bump d (field x)) d0 xs) = dict_values_sum d0 + length xs"
  by (induction xs arbitrary: d0) (simp_all add: sum_bump)

lemma sum_count_by: "dict_values_sum (count_by field xs) = length xs"
  by (simp add: count_by_def sum_foldl_bump) (simp add: dict_values_sum_def)


section \<open>The deduplication loop and the stable sort\<close>


lemma unique_loop_not_seen: "x \<in> set (unique_loop key seen xs) \<Longrightarrow> key x \<notin> seen"
proof (induction xs arbitrary: seen)
  case Nil
  then show ?case by simp
next
  case (Cons a xs)
  show ?case
  proof (cases "key a \<in> seen")
    case True
    with Cons show ?thesis by simp
  next
    case False
    with Cons.prems have "x = a \<or> x \<in> set (unique_loop key (insert (key a) seen) xs)"
      by simp
    then show ?thesis
    proof
      assume "x = a"
      with False show ?thesis by simp
    next
      assume "x \<in> set (unique_loop key (insert (key a) seen) xs)"
      from Cons.IH [OF this] show ?thesis by simp
    qed
  qed
qed

lemma distinct_unique_loop: "distinct (map key (unique_loop key seen xs))"
proof (induction xs arbitrary: seen)
  case Nil
  show ?case by simp
next
  case (Cons a xs)
  have ne: "key a \<noteq> key x" if "x \<in> set (unique_loop key (insert (key a) seen) xs)" for x
    using unique_loop_not_seen [OF that] by auto
  show ?case
  proof (cases "key a \<in> seen")
    case True
    with Cons.IH show ?thesis by simp
  next
    case False
    with Cons.IH [of "insert (key a) seen"] ne show ?thesis by auto
  qed
qed


lemma unique_loop_first:
  "f \<in> set (unique_loop key seen xs) \<Longrightarrow> find (\<lambda>g. key g = key f) xs = Some f"
proof (induction xs arbitrary: seen)
  case Nil
  then show ?case by simp
next
  case (Cons a xs)
  show ?case
  proof (cases "key a \<in> seen")
    case True
    with Cons.prems have mem: "f \<in> set (unique_loop key seen xs)" by simp
    from unique_loop_not_seen [OF mem] True have "key a \<noteq> key f" by auto
    with Cons.IH [OF mem] show ?thesis by simp
  next
    case False
    with Cons.prems have "f = a \<or> f \<in> set (unique_loop key (insert (key a) seen) xs)"
      by simp
    then show ?thesis
    proof
      assume "f = a"
      then show ?thesis by simp
    next
      assume mem: "f \<in> set (unique_loop key (insert (key a) seen) xs)"
      from unique_loop_not_seen [OF mem] have "key a \<noteq> key f" by auto
      with Cons.IH [OF mem] show ?thesis by simp
    qed
  qed
qed

lemma find_as_filter:
  "find P xs = (case filter P xs of [] \<Rightarrow> None | x # ys \<Rightarrow> Some x)"
  by (induction xs) simp_all

lemma filter_narrow:
  "\<forall>x\<in>set xs. P x \<longrightarrow> Q x \<Longrightarrow> filter P (filter Q xs) = filter P xs"
  by (induction xs) auto

text \<open>
  When all entries with one key have the same rank, the stable sort on the rank leaves the
  first entry with that key the first.
\<close>

lemma find_sort_key:
  fixes rank :: "'a \<Rightarrow> nat"
  assumes same: "\<forall>g\<in>set xs. key g = k \<longrightarrow> rank g = r"
  shows "find (\<lambda>g. key g = k) (sort_key rank xs) = find (\<lambda>g. key g = k) xs"
proof -
  have "filter (\<lambda>g. key g = k) (filter (\<lambda>g. rank g = r) (sort_key rank xs))
          = filter (\<lambda>g. key g = k) (sort_key rank xs)"
    by (rule filter_narrow) (use same in simp)
  moreover have "filter (\<lambda>g. key g = k) (filter (\<lambda>g. rank g = r) (sort_key rank xs))
          = filter (\<lambda>g. key g = k) (filter (\<lambda>g. rank g = r) xs)"
    by (simp only: sort_key_stable)
  moreover have "filter (\<lambda>g. key g = k) (filter (\<lambda>g. rank g = r) xs)
          = filter (\<lambda>g. key g = k) xs"
    by (rule filter_narrow) (use same in simp)
  ultimately have "filter (\<lambda>g. key g = k) (sort_key rank xs) = filter (\<lambda>g. key g = k) xs"
    by simp
  then show ?thesis by (simp only: find_as_filter)
qed

section \<open>The reports\<close>





text \<open>
  Claim C10. In each of the three reports the counts agree: the values of
  \<^verbatim>\<open>by_severity\<close> add up to the number of reported entries, which is the reported total,
  and so do the values of \<^verbatim>\<open>by_check\<close> (security auditor) and of \<^verbatim>\<open>by_category\<close> (BLE
  analyzer, threat modeler).
\<close>

theorem summary_counts_consistent:
  "dict_values_sum (by_severity (generate_report tgt fs)) = length (findings (generate_report tgt fs))
   \<and> total_findings (generate_report tgt fs) = length (findings (generate_report tgt fs))
   \<and> dict_values_sum (by_check (generate_report tgt fs)) = total_findings (generate_report tgt fs)
   \<and> dict_values_sum (b_by_severity (ble_generate_report tgt bs))
        = length (b_findings (ble_generate_report tgt bs))
   \<and> b_total_findings (ble_generate_report tgt bs) = length (b_findings (ble_generate_report tgt bs))
   \<and> dict_values_sum (b_by_category (ble_generate_report tgt bs))
        = b_total_findings (ble_generate_report tgt bs)
   \<and> r_summary (tm_generate_report res) =
        Some \<lparr> total_threats = length (r_threats (tm_generate_report res)),
               s_by_severity = count_by t_severity (r_threats (tm_generate_report res)),
               s_by_category = count_by t_category (r_threats (tm_generate_report res)),
               components_analyzed = components_found res \<rparr>
   \<and> dict_values_sum (count_by t_severity (r_threats (tm_generate_report res)))
        = length (r_threats (tm_generate_report res))
   \<and> dict_values_sum (count_by t_category (r_threats (tm_generate_report res)))
        = length (r_threats (tm_generate_report res))"
  by (simp add: generate_report_def ble_generate_report_def tm_generate_report_def Let_def
        sum_count_by)





section \<open>Numbered lines\<close>

lemma enumerate1_map: "enumerate1 ls = map (\<lambda>i. (Suc i, ls ! i)) [0 ..< length ls]"
  by (rule nth_equalityI) (simp_all add: enumerate1_def del: upt_Suc)

lemma in_enumerate1:
  "(k, l) \<in> set (enumerate1 ls) \<longleftrightarrow> (\<exists>i<length ls. k = Suc i \<and> l = ls ! i)"
  by (auto simp: enumerate1_map)

text \<open>A list built block by block, every block tagged with its index: filtering on a tag
  gives back the block of that index.\<close>

lemma filter_concat_tagged:
  assumes "\<And>j f. f \<in> set (h j) \<Longrightarrow> tag f = t j" and "inj t" and "i < n"
  shows "filter (\<lambda>f. tag f = t i) (concat (map h [0 ..< n])) = h i"
  using assms(3)
proof (induction n)
  case 0
  then show ?case by simp
next
  case (Suc n)
  have own: "filter (\<lambda>f. tag f = t j) (h j) = h j" for j
    using assms(1) by (simp add: filter_id_conv)
  have other: "filter (\<lambda>f. tag f = t i) (h j) = []" if "j \<noteq> i" for j
    using assms(1) assms(2) that by (auto simp: filter_empty_conv dest: injD)
  have none: "filter (\<lambda>f. tag f = t i) (concat (map h [0 ..< m])) = []" if "m \<le> i" for m
    using that assms(1) assms(2) by (auto simp: filter_empty_conv dest!: injD)
  show ?case
  proof (cases "i < n")
    case True
    then have "i \<noteq> n" by simp
    with Suc.IH [OF True] other [of n] show ?thesis by simp
  next
    case False
    with Suc.prems have "i = n" by simp
    with none [of n] own [of n] show ?thesis by simp
  qed
qed

section \<open>Where the findings of the line scans come from\<close>

lemma check_lines_blocks:
  "check_lines re rel_path lines c =
     concat (map (\<lambda>i.
        if is_comment (strip (lines ! i)) then []
        else if re_search_i re (chk_pattern c) (lines ! i)
        then [\<lparr> severity = chk_severity c, check_name = chk_name c,
                description = fst (snd (snd (snd c))),
                file_path = rel_path, line = Suc i,
                code_snippet = take 120 (strip (lines ! i)),
                recommendation = fst (snd (snd (snd (snd c)))) \<rparr>]
        else []) [0 ..< length lines])"
proof -
  obtain p s n d r g where c: "c = (p, s, n, d, r, g)" by (cases c)
  show ?thesis
    unfolding c
    by (simp add: check_lines_def enumerate1_map map_concat comp_def Let_def
          chk_pattern_def chk_severity_def chk_name_def cong: if_cong)
qed

lemma in_check_lines:
  assumes "f \<in> set (check_lines re rel_path lines c)"
  shows "\<exists>i<length lines. line f = Suc i \<and> \<not> is_comment (strip (lines ! i))
           \<and> re_search_i re (chk_pattern c) (lines ! i)
           \<and> code_snippet f = take 120 (strip (lines ! i))
           \<and> file_path f = rel_path
           \<and> check_name f = chk_name c \<and> severity f = chk_severity c"
  using assms unfolding check_lines_blocks by (auto split: if_splits)

lemma manifest_check_lines_blocks:
  "manifest_check_lines re rel_path lines c =
     concat (map (\<lambda>i.
        if re_search_i re (chk_pattern c) (lines ! i)
        then [\<lparr> severity = chk_severity c, check_name = chk_name c,
                description = fst (snd (snd (snd c))),
                file_path = rel_path, line = Suc i,
                code_snippet = take 120 (strip (lines ! i)),
                recommendation = fst (snd (snd (snd (snd c)))) \<rparr>]
        else []) [0 ..< length lines])"
proof -
  obtain p s n d r g where c: "c = (p, s, n, d, r, g)" by (cases c)
  show ?thesis
    unfolding c
    by (simp add: manifest_check_lines_def enumerate1_map map_concat comp_def
          chk_pattern_def chk_severity_def chk_name_def cong: if_cong)
qed

lemma in_manifest_check_lines:
  assumes "f \<in> set (manifest_check_lines re rel_path lines c)"
  shows "\<exists>i<length lines. line f = Suc i
           \<and> re_search_i re (chk_pattern c) (lines ! i)
           \<and> code_snippet f = take 120 (strip (lines ! i))
           \<and> file_path f = rel_path
           \<and> check_name f = chk_name c \<and> severity f = chk_severity c"
  using assms unfolding manifest_check_lines_blocks by (auto split: if_splits)

lemma ble_check_lines_blocks:
  "ble_check_lines re cat rel_path lines p =
     concat (map (\<lambda>i.
        if re_search_i re (fst p) (lines ! i)
        then [\<lparr> b_severity = fst (snd p), b_category = cat,
                b_description = fst (snd (snd (snd p))),
                b_file_path = rel_path, b_line = Suc i,
                b_code_snippet = take 120 (strip (lines ! i)),
                b_recommendation = snd (snd (snd (snd p))) \<rparr>]
        else []) [0 ..< length lines])"
proof -
  obtain pt s n d r where p: "p = (pt, s, n, d, r)" by (cases p)
  show ?thesis
    unfolding p
    by (simp add: ble_check_lines_def enumerate1_map map_concat comp_def cong: if_cong)
qed

lemma in_ble_check_lines:
  assumes "f \<in> set (ble_check_lines re cat rel_path lines p)"
  shows "\<exists>i<length lines. b_line f = Suc i
           \<and> re_search_i re (fst p) (lines ! i)
           \<and> b_code_snippet f = take 120 (strip (lines ! i))
           \<and> b_file_path f = rel_path \<and> b_category f = cat
           \<and> b_description f = fst (snd (snd (snd p))) \<and> b_severity f = fst (snd p)"
  using assms unfolding ble_check_lines_blocks by (auto split: if_splits)

lemma handler_lines_blocks:
  "handler_lines re rel_path lines pattern =
     concat (map (\<lambda>i.
        if re_search_i re pattern (lines ! i)
        then (if \<not> has_validation re lines (Suc i)
              then [unvalidated_handler rel_path (Suc i) (lines ! i)] else [])
        else [])
        [0 ..< length lines])"
  by (simp add: handler_lines_def enumerate1_map map_concat comp_def)


end
